theory Spec2Isabelle
  imports Complex_Main "HOL-Library.Log_Nat"
begin

section \<open>JavaScript numbers\<close>

text \<open>
  The swap form computes on JavaScript numbers: IEEE-754 binary64 values. A value is
  modelled by the rational it denotes, or one of the three special values. Every
  arithmetic operation computes the exact rational result and rounds it to the nearest
  binary64 value, ties to even (\<open>fl\<close>), as IEEE-754 prescribes. Negative zero is
  identified with zero: no operation of the form distinguishes them.
\<close>

datatype number = Fin rat | PInf | NInf | NaN

text \<open>
  Powers with an integer exponent, by repeated squaring: \<open>ipow x n\<close> is \<open>x ^ n\<close> for
  \<open>n \<ge> 0\<close>, and \<open>pow_int x k\<close> is \<open>x powi k\<close> for every integer \<open>k\<close>.
\<close>

function ipow :: "rat \<Rightarrow> int \<Rightarrow> rat" where
  "ipow x n =
     (if n \<le> 0 then 1
      else if even n then ipow (x * x) (n div 2)
      else x * ipow (x * x) (n div 2))"
  by pat_completeness auto
termination
  by (relation "measure (\<lambda>(x, n). nat n)") auto

declare ipow.simps [simp del]

definition pow_int :: "rat \<Rightarrow> int \<Rightarrow> rat" where
  "pow_int x k = (if 0 \<le> k then ipow x k else 1 / ipow x (- k))"

definition roundHalfEven :: "rat \<Rightarrow> int" where
  "roundHalfEven q =
     (let f = \<lfloor>q\<rfloor>; d = q - of_int f
      in if d < 1 / 2 then f else if 1 / 2 < d then f + 1 else if even f then f else f + 1)"

text \<open>\<open>ilog2 q\<close> is the binary exponent of a positive rational: \<open>2 ^ ilog2 q \<le> q < 2 ^ (ilog2 q + 1)\<close>.\<close>

definition ilog2 :: "rat \<Rightarrow> int" where
  "ilog2 q =
     (let a = fst (quotient_of q); b = snd (quotient_of q); k = bitlen a - bitlen b
      in if pow_int 2 k \<le> q then k else k - 1)"

text \<open>
  Rounding to binary64: 53 significant bits, smallest normal exponent \<open>-1022\<close> (below it
  the spacing stays \<open>2 ^ -1074\<close>: subnormals), overflow to infinity from \<open>2 ^ 1024\<close>.
\<close>

definition fl :: "rat \<Rightarrow> number" where
  "fl q =
     (if q = 0 then Fin 0
      else let e = max (ilog2 \<bar>q\<bar>) (- 1022);
               u = pow_int 2 (e - 52);
               r = of_int (roundHalfEven (q / u)) * u
           in if ipow 2 1024 \<le> \<bar>r\<bar> then (if 0 < q then PInf else NInf) else Fin r)"

fun num_neg :: "number \<Rightarrow> number" where
  "num_neg (Fin q) = Fin (- q)"
| "num_neg PInf = NInf"
| "num_neg NInf = PInf"
| "num_neg NaN = NaN"

text \<open>The sign of a number: \<open>1\<close>, \<open>-1\<close>, or \<open>0\<close> for zero and NaN.\<close>

fun num_sgn :: "number \<Rightarrow> int" where
  "num_sgn (Fin q) = (if 0 < q then 1 else if q < 0 then - 1 else 0)"
| "num_sgn PInf = 1"
| "num_sgn NInf = - 1"
| "num_sgn NaN = 0"

definition inf_of_sgn :: "int \<Rightarrow> number" where
  "inf_of_sgn s = (if 0 < s then PInf else if s < 0 then NInf else NaN)"

text \<open>\<open>a * b\<close>: infinity times zero is NaN.\<close>

fun num_mul :: "number \<Rightarrow> number \<Rightarrow> number" where
  "num_mul NaN b = NaN"
| "num_mul a NaN = NaN"
| "num_mul (Fin x) (Fin y) = fl (x * y)"
| "num_mul a b = inf_of_sgn (num_sgn a * num_sgn b)"

text \<open>
  \<open>a / b\<close>: a finite number over infinity is zero, infinity over infinity and zero over
  zero are NaN, a non-zero number over zero is an infinity (with the sign of the
  numerator, the zero being positive).
\<close>

fun num_div :: "number \<Rightarrow> number \<Rightarrow> number" where
  "num_div NaN b = NaN"
| "num_div a NaN = NaN"
| "num_div (Fin x) (Fin y) = (if y = 0 then inf_of_sgn (num_sgn (Fin x)) else fl (x / y))"
| "num_div (Fin x) b = Fin 0"
| "num_div a (Fin y) = inf_of_sgn (num_sgn a * (if y < 0 then - 1 else 1))"
| "num_div a b = NaN"

text \<open>The comparisons \<open>a > b\<close> and \<open>a <= b\<close>: false whenever an operand is NaN.\<close>

fun num_gt :: "number \<Rightarrow> number \<Rightarrow> bool" where
  "num_gt NaN b = False"
| "num_gt a NaN = False"
| "num_gt (Fin x) (Fin y) = (y < x)"
| "num_gt PInf b = (b \<noteq> PInf)"
| "num_gt NInf b = False"
| "num_gt (Fin x) b = (b = NInf)"

fun num_le :: "number \<Rightarrow> number \<Rightarrow> bool" where
  "num_le NaN b = False"
| "num_le a NaN = False"
| "num_le a b = (\<not> num_gt a b)"

definition isNaN :: "number \<Rightarrow> bool" where
  "isNaN a = (a = NaN)"

text \<open>Truthiness of a number (in \<open>a && b\<close>, \<open>!a\<close>): zero and NaN are falsy.\<close>

definition truthy :: "number \<Rightarrow> bool" where
  "truthy a = (a \<noteq> Fin 0 \<and> a \<noteq> NaN)"

fun Math_floor :: "number \<Rightarrow> number" where
  "Math_floor (Fin q) = Fin (of_int \<lfloor>q\<rfloor>)"
| "Math_floor a = a"

text \<open>\<open>Number.MAX_SAFE_INTEGER\<close> is \<open>2 ^ 53 - 1\<close>.\<close>

definition MAX_SAFE_INTEGER :: number where
  "MAX_SAFE_INTEGER = Fin 9007199254740991"

section \<open>Strings, the amount pattern and number conversions\<close>

text \<open>
  A string is a list of 8-bit characters. The functions below tell digits, the dot, the
  signs, the exponent letter and white space from everything else; any other character,
  as a JavaScript code unit beyond this range would, ends a number and fails the pattern.
\<close>

definition isDigit :: "char \<Rightarrow> bool" where
  "isDigit c = (c \<in> set ''0123456789'')"

definition digitVal :: "char \<Rightarrow> int" where
  "digitVal c = of_char c - 48"

definition digitsVal :: "string \<Rightarrow> int" where
  "digitsVal ds = foldl (\<lambda>acc c. 10 * acc + digitVal c) 0 ds"

text \<open>
  The regular expression \<^verbatim>\<open>/^\d*\.?\d*$/\<close> of the form and of the validators, as
  \<^verbatim>\<open>.test(value)\<close>: digits, then at most one dot, then digits up to the end of
  the string.
\<close>

definition amountPattern :: "string \<Rightarrow> bool" where
  "amountPattern s =
     (case dropWhile isDigit s of
        [] \<Rightarrow> True
      | c # r \<Rightarrow> c = CHR ''.'' \<and> list_all isDigit r)"

text \<open>
  White space as \<^verbatim>\<open>trim\<close> and \<^verbatim>\<open>parseFloat\<close> strip it: tab, line feed,
  vertical tab, form feed, carriage return, space and no-break space (the white space
  and line terminators among the first 256 code units).
\<close>

definition isWhiteSpace :: "char \<Rightarrow> bool" where
  "isWhiteSpace c = (of_char c \<in> set [9, 10, 11, 12, 13, 32, 160 :: nat])"

definition trim :: "string \<Rightarrow> string" where
  "trim s = rev (dropWhile isWhiteSpace (rev (dropWhile isWhiteSpace s)))"

text \<open>
  The value of an exponent part: \<^verbatim>\<open>e\<close> or \<^verbatim>\<open>E\<close>, an optional sign, digits;
  \<open>0\<close> where the string does not start with a complete exponent part.
\<close>

definition strExponent :: "string \<Rightarrow> int" where
  "strExponent r =
     (case r of
        [] \<Rightarrow> 0
      | c # r1 \<Rightarrow>
          if c = CHR ''e'' \<or> c = CHR ''E'' then
            (case r1 of
               [] \<Rightarrow> 0
             | d # r2 \<Rightarrow>
                 if d = CHR ''+'' then digitsVal (takeWhile isDigit r2)
                 else if d = CHR ''-'' then - digitsVal (takeWhile isDigit r2)
                 else digitsVal (takeWhile isDigit r1))
          else 0)"

text \<open>
  The longest prefix that is an unsigned decimal literal (\<^verbatim>\<open>Infinity\<close>, or digits with
  an optional fraction and exponent, at least one digit before the exponent), read as a
  decimal number and rounded to binary64; NaN when there is no such prefix.
\<close>

definition strUnsigned :: "string \<Rightarrow> number" where
  "strUnsigned s =
     (if take 8 s = ''Infinity'' then PInf
      else let ip = takeWhile isDigit s;
               r1 = dropWhile isDigit s;
               hasDot = (r1 \<noteq> [] \<and> hd r1 = CHR ''.'');
               fp = (if hasDot then takeWhile isDigit (tl r1) else []);
               r2 = (if hasDot then dropWhile isDigit (tl r1) else r1)
           in if ip = [] \<and> fp = [] then NaN
              else fl (of_int (digitsVal (ip @ fp)) * pow_int 10 (strExponent r2 - int (length fp))))"

definition parseFloat :: "string \<Rightarrow> number" where
  "parseFloat s =
     (case dropWhile isWhiteSpace s of
        [] \<Rightarrow> NaN
      | c # r \<Rightarrow>
          if c = CHR ''-'' then num_neg (strUnsigned r)
          else if c = CHR ''+'' then strUnsigned r
          else strUnsigned (c # r))"

text \<open>The decimal digits of a non-negative integer, without leading zeros (\<open>0\<close> is \<open>''0''\<close>).\<close>

function decDigits :: "int \<Rightarrow> string" where
  "decDigits n =
     (if n < 10 then [char_of (48 + n)] else decDigits (n div 10) @ [char_of (48 + n mod 10)])"
  by pat_completeness auto
termination
  by (relation "measure nat") auto

declare decDigits.simps [simp del]

definition stripZeros :: "string \<Rightarrow> string" where
  "stripZeros ds = rev (dropWhile (\<lambda>c. c = CHR ''0'') (rev ds))"

text \<open>
  \<^verbatim>\<open>Number.prototype.toString\<close> picks the shortest decimal significand \<open>s\<close> of \<open>k\<close>
  digits with \<open>fl (s * 10 ^ (n - k)) = x\<close>, the closest to \<open>x\<close> among those of that length.
  For each \<open>k\<close> only the two multiples of \<open>10 ^ (n - k)\<close> around \<open>x\<close> can qualify.
\<close>

definition sigCandidate :: "rat \<Rightarrow> int \<Rightarrow> int \<Rightarrow> int option" where
  "sigCandidate x n k =
     (let p = pow_int 10 (n - k);
          lo = \<lfloor>x / p\<rfloor>;
          hi = lo + 1;
          okLo = (fl (of_int lo * p) = Fin x);
          okHi = (fl (of_int hi * p) = Fin x)
      in if okLo \<and> okHi then
           (let dl = x - of_int lo * p; dh = of_int hi * p - x
            in Some (if dl < dh then lo else if dh < dl then hi else if even lo then lo else hi))
         else if okLo then Some lo
         else if okHi then Some hi
         else None)"

text \<open>Tries \<open>k, k + 1, \<dots>\<close>; seventeen digits always identify a binary64 value.\<close>

fun shortestSig :: "rat \<Rightarrow> int \<Rightarrow> nat \<Rightarrow> int \<Rightarrow> int \<times> int" where
  "shortestSig x n 0 k = (\<lfloor>x / pow_int 10 (n - k)\<rfloor>, k)"
| "shortestSig x n (Suc fuel) k =
     (case sigCandidate x n k of
        Some s \<Rightarrow> (s, k)
      | None \<Rightarrow> shortestSig x n fuel (k + 1))"

text \<open>
  \<^verbatim>\<open>toString\<close> of a finite \<open>x \<ge> 10 ^ 21\<close>, where the result is in exponent form:
  one digit, the remaining significant digits after a dot if there are any, and
  \<^verbatim>\<open>e+\<close> with the decimal exponent.
\<close>

definition toStringLarge :: "rat \<Rightarrow> string" where
  "toStringLarge x =
     (let n = int (length (decDigits \<lfloor>x\<rfloor>));
          sk = shortestSig x n 17 1;
          s = fst sk;
          k = snd sk;
          e = int (length (decDigits s)) + (n - k) - 1;
          ds = stripZeros (decDigits s)
      in (if length ds \<le> 1 then ds else hd ds # CHR ''.'' # tl ds) @ ''e+'' @ decDigits e)"

text \<open>
  \<^verbatim>\<open>x.toFixed(f)\<close>: the nearest multiple of \<open>10 ^ -f\<close> (the larger one on a tie) written
  with exactly \<open>f\<close> decimals when \<open>\<bar>x\<bar> < 10 ^ 21\<close>; from \<open>10 ^ 21\<close> on the result of
  \<^verbatim>\<open>toString\<close>, and the names of the non-finite values. (JavaScript raises RangeError for
  \<open>f > 100\<close>; every call in the form passes 6.)
\<close>

definition toFixedDigits :: "rat \<Rightarrow> nat \<Rightarrow> string" where
  "toFixedDigits x f =
     (let n = \<lfloor>x * ipow 10 (int f) + 1 / 2\<rfloor>;
          m = decDigits n;
          m' = (if length m \<le> f then replicate (f + 1 - length m) CHR ''0'' @ m else m);
          k = length m'
      in if f = 0 then m' else take (k - f) m' @ CHR ''.'' # drop (k - f) m')"

fun toFixed :: "number \<Rightarrow> nat \<Rightarrow> string" where
  "toFixed NaN f = ''NaN''"
| "toFixed PInf f = ''Infinity''"
| "toFixed NInf f = ''-Infinity''"
| "toFixed (Fin x) f =
     (if x < 0 then ''-'' else []) @
     (if ipow 10 21 \<le> \<bar>x\<bar> then toStringLarge \<bar>x\<bar> else toFixedDigits \<bar>x\<bar> f)"

section \<open>formatters.ts\<close>

text \<open>\<^verbatim>\<open>parseNumber\<close>: \<^verbatim>\<open>parseFloat\<close>, with NaN replaced by \<open>0\<close>.\<close>

definition parseNumber :: "string \<Rightarrow> number" where
  "parseNumber v = (let parsed = parseFloat v in if isNaN parsed then Fin 0 else parsed)"

text \<open>\<^verbatim>\<open>truncateDecimals\<close>; \<^verbatim>\<open>Math.pow(10, decimals)\<close> is the power of ten rounded to binary64.\<close>

definition truncateDecimals :: "number \<Rightarrow> nat \<Rightarrow> string" where
  "truncateDecimals v decimals =
     (let multiplier = fl (ipow 10 (int decimals));
          truncated = num_div (Math_floor (num_mul v multiplier)) multiplier
      in toFixed truncated decimals)"

section \<open>token.types.ts\<close>

record SwapFormData =
  fromToken :: string
  toToken :: string
  fromAmount :: string
  toAmount :: string

datatype status = Pending | Completed | Failed

text \<open>The timestamp is the clock reading in milliseconds.\<close>

record SwapTransaction =
  tx_id :: string
  tx_fromToken :: string
  tx_toToken :: string
  tx_fromAmount :: number
  tx_toAmount :: number
  tx_exchangeRate :: number
  tx_timestamp :: int
  tx_status :: status

datatype errorField = FromAmountField | ToAmountField | General

record ValidationError =
  field :: errorField
  message :: string

section \<open>validators.ts\<close>

definition validateSwapAmount :: "string \<Rightarrow> errorField \<Rightarrow> ValidationError option" where
  "validateSwapAmount amount fld =
     (if amount = [] \<or> trim amount = [] then
        Some \<lparr>field = fld, message = ''Amount is required''\<rparr>
      else if \<not> amountPattern amount then
        Some \<lparr>field = fld, message = ''Please enter a valid number''\<rparr>
      else let numValue = parseFloat amount
           in if isNaN numValue \<or> num_le numValue (Fin 0) then
                Some \<lparr>field = fld, message = ''Amount must be greater than 0''\<rparr>
              else if num_gt numValue MAX_SAFE_INTEGER then
                Some \<lparr>field = fld, message = ''Amount is too large''\<rparr>
              else None)"

definition validateTokensDifferent :: "string \<Rightarrow> string \<Rightarrow> ValidationError option" where
  "validateTokensDifferent fromTok toTok =
     (if fromTok = toTok then
        Some \<lparr>field = General, message = ''Cannot swap the same token''\<rparr>
      else None)"

section \<open>useTokenPrices.ts\<close>

text \<open>
  An entry of the feed. The price is \<open>None\<close> where the JSON has \<^verbatim>\<open>null\<close> or no
  \<^verbatim>\<open>price\<close> member.
\<close>

record TokenApiResponse =
  api_currency :: string
  api_price :: "number option"
  api_date :: string

text \<open>A token of the selector list (its icon URL, a rendering matter, is left out).\<close>

record Token =
  tok_currency :: string
  tok_price :: number
  tok_date :: string

record PricesState =
  tokens :: "Token list"
  prices :: "string \<rightharpoonup> number"
  loading :: bool
  prices_error :: "string option"

definition initialPrices :: PricesState where
  "initialPrices = \<lparr>tokens = [], prices = Map.empty, loading = True, prices_error = None\<rparr>"

text \<open>
  What the \<^verbatim>\<open>try\<close> block of \<^verbatim>\<open>fetchPrices\<close> meets: the request, the status check or
  the JSON decoding throws, or the decoded array arrives.
\<close>

datatype fetchOutcome = FetchFailed | FetchOk "TokenApiResponse list"

text \<open>
  The price table is a JavaScript object that starts as \<^verbatim>\<open>{}\<close>: its own keys with their
  numbers, a partial map, and behind them the properties every such object inherits from
  \<^verbatim>\<open>Object.prototype\<close>. The assignment \<^verbatim>\<open>acc[key] = price\<close> creates or replaces an own
  key, except for the key \<^verbatim>\<open>__proto__\<close>: there it calls the inherited setter, which
  ignores a number, and no own key arises. Reading \<^verbatim>\<open>prices[key]\<close> gives the number of an
  own key; for a key that is no own key it gives the inherited function or object when
  the key is one of the inherited names, and \<^verbatim>\<open>undefined\<close> otherwise. An inherited value
  is truthy and converts to NaN in arithmetic.
\<close>

datatype jsvalue = Undefined | Num number | Inherited

definition objectPrototypeNames :: "string list" where
  "objectPrototypeNames =
     [''constructor'', ''__proto__'', ''__defineGetter__'', ''__defineSetter__'',
      ''__lookupGetter__'', ''__lookupSetter__'', ''hasOwnProperty'', ''isPrototypeOf'',
      ''propertyIsEnumerable'', ''toLocaleString'', ''toString'', ''valueOf'']"

definition setProp :: "(string \<rightharpoonup> number) \<Rightarrow> string \<Rightarrow> number \<Rightarrow> (string \<rightharpoonup> number)" where
  "setProp obj k v = (if k = ''__proto__'' then obj else obj(k \<mapsto> v))"

definition getProp :: "(string \<rightharpoonup> number) \<Rightarrow> string \<Rightarrow> jsvalue" where
  "getProp obj k =
     (if k = ''__proto__'' then Inherited
      else case obj k of
             Some v \<Rightarrow> Num v
           | None \<Rightarrow> if k \<in> set objectPrototypeNames then Inherited else Undefined)"

fun truthyValue :: "jsvalue \<Rightarrow> bool" where
  "truthyValue Undefined = False"
| "truthyValue (Num a) = truthy a"
| "truthyValue Inherited = True"

fun toNumber :: "jsvalue \<Rightarrow> number" where
  "toNumber Undefined = NaN"
| "toNumber (Num a) = a"
| "toNumber Inherited = NaN"

text \<open>
  \<^verbatim>\<open>validTokens\<close> keeps the entries whose price is not \<^verbatim>\<open>null\<close>, as pairs of the
  entry and its price; \<^verbatim>\<open>reduce\<close> assigns them to the lookup object from left to right.
\<close>

definition validTokens :: "TokenApiResponse list \<Rightarrow> (TokenApiResponse \<times> number) list" where
  "validTokens data =
     List.map_filter (\<lambda>t. case api_price t of None \<Rightarrow> None | Some p \<Rightarrow> Some (t, p)) data"

definition pricesMap :: "(TokenApiResponse \<times> number) list \<Rightarrow> (string \<rightharpoonup> number)" where
  "pricesMap vts = foldl (\<lambda>acc tp. setProp acc (api_currency (fst tp)) (snd tp)) Map.empty vts"

definition fetchPrices :: "fetchOutcome \<Rightarrow> PricesState \<Rightarrow> PricesState" where
  "fetchPrices outcome st =
     (case outcome of
        FetchOk data \<Rightarrow>
          st\<lparr>tokens := map (\<lambda>tp. \<lparr>tok_currency = api_currency (fst tp), tok_price = snd tp,
                                   tok_date = api_date (fst tp)\<rparr>) (validTokens data),
             prices := pricesMap (validTokens data),
             prices_error := None,
             loading := False\<rparr>
      | FetchFailed \<Rightarrow>
          st\<lparr>prices_error := Some ''Failed to load token prices. Please try again later.'',
             tokens := [],
             prices := Map.empty,
             loading := False\<rparr>)"

section \<open>useSwap.ts\<close>

record SwapState =
  isSwapping :: bool
  lastTransaction :: "SwapTransaction option"
  swap_error :: "string option"

definition initialSwap :: SwapState where
  "initialSwap = \<lparr>isSwapping = False, lastTransaction = None, swap_error = None\<rparr>"

text \<open>
  \<^verbatim>\<open>executeSwap\<close> runs in two parts. Up to its \<^verbatim>\<open>await\<close> it sets the flags; when the
  two-second timer fires it draws a random number and either throws, or builds the
  transaction from the form data and the rate it was called with, from the clock
  (\<^verbatim>\<open>Date.now()\<close> in the identifier), a random suffix and the clock again
  (\<^verbatim>\<open>new Date()\<close>, the timestamp).
\<close>

definition executeSwap_begin :: "SwapState \<Rightarrow> SwapState" where
  "executeSwap_begin sw = sw\<lparr>isSwapping := True, swap_error := None\<rparr>"

datatype settlement = RandomFailure | Settled int string int

definition executeSwap_resume ::
    "settlement \<Rightarrow> SwapFormData \<Rightarrow> number \<Rightarrow> SwapState \<Rightarrow> (string + SwapTransaction) \<times> SwapState" where
  "executeSwap_resume res fd rate sw =
     (case res of
        RandomFailure \<Rightarrow>
          (Inl ''Transaction failed. Please try again.'',
           sw\<lparr>swap_error := Some ''Transaction failed. Please try again.'', isSwapping := False\<rparr>)
      | Settled now suffix stamp \<Rightarrow>
          (let transaction =
                 \<lparr>tx_id = ''swap_'' @ decDigits now @ ''_'' @ suffix,
                  tx_fromToken = fromToken fd,
                  tx_toToken = toToken fd,
                  tx_fromAmount = parseFloat (fromAmount fd),
                  tx_toAmount = parseFloat (toAmount fd),
                  tx_exchangeRate = rate,
                  tx_timestamp = stamp,
                  tx_status = Completed\<rparr>
           in (Inr transaction, sw\<lparr>lastTransaction := Some transaction, isSwapping := False\<rparr>)))"

section \<open>CurrencySwapForm.tsx\<close>

datatype editedField = From | To

record FormState =
  formData :: SwapFormData
  error :: string
  lastUpdatedField :: editedField
  showSuccess :: bool

definition initialForm :: FormState where
  "initialForm =
     \<lparr>formData = \<lparr>fromToken = ''ETH'', toToken = ''USDC'', fromAmount = [], toAmount = []\<rparr>,
      error = [], lastUpdatedField = From, showSuccess = False\<rparr>"

text \<open>
  The memoised \<^verbatim>\<open>exchangeRate\<close>: the ratio of the two values read from the price table
  when both are truthy, else \<open>0\<close>.
\<close>

definition exchangeRate :: "(string \<rightharpoonup> number) \<Rightarrow> SwapFormData \<Rightarrow> number" where
  "exchangeRate ps fd =
     (let fromPrice = getProp ps (fromToken fd);
          toPrice = getProp ps (toToken fd)
      in if truthyValue fromPrice \<and> truthyValue toPrice
         then num_div (toNumber fromPrice) (toNumber toPrice)
         else Fin 0)"

text \<open>
  A handler is a closure of one render: it reads \<^verbatim>\<open>formData\<close>, \<^verbatim>\<open>lastUpdatedField\<close>
  and \<^verbatim>\<open>exchangeRate\<close> as they were in that render (\<open>r\<close> and \<open>rate\<close> below), and its
  state setters act on the state at the time they are applied (\<open>s\<close>).
  \<^verbatim>\<open>setFormData({...formData, ...})\<close> replaces the form data by a copy of the render's;
  \<^verbatim>\<open>setFormData(prev => ...)\<close> updates the form data of \<open>s\<close>. When nothing happened
  since the render, \<open>r = s\<close>.
\<close>

definition handleFromAmountChange :: "FormState \<Rightarrow> number \<Rightarrow> string \<Rightarrow> FormState \<Rightarrow> FormState" where
  "handleFromAmountChange r rate v s =
     (if v \<noteq> [] \<and> \<not> amountPattern v then s\<lparr>error := ''Please enter a valid number''\<rparr>
      else let numValue = parseNumber v;
               converted = num_mul numValue rate
           in s\<lparr>error := [],
                lastUpdatedField := From,
                formData := (formData r)
                  \<lparr>fromAmount := v,
                   toAmount := (if num_gt converted (Fin 0) then truncateDecimals converted 6 else [])\<rparr>\<rparr>)"

definition handleToAmountChange :: "FormState \<Rightarrow> number \<Rightarrow> string \<Rightarrow> FormState \<Rightarrow> FormState" where
  "handleToAmountChange r rate v s =
     (if v \<noteq> [] \<and> \<not> amountPattern v then s\<lparr>error := ''Please enter a valid number''\<rparr>
      else let numValue = parseNumber v;
               converted = (if num_gt rate (Fin 0) then num_div numValue rate else Fin 0)
           in s\<lparr>error := [],
                lastUpdatedField := To,
                formData := (formData r)
                  \<lparr>toAmount := v,
                   fromAmount := (if num_gt converted (Fin 0) then truncateDecimals converted 6 else [])\<rparr>\<rparr>)"

definition handleFromTokenChange :: "string \<Rightarrow> FormState \<Rightarrow> FormState" where
  "handleFromTokenChange currency s = s\<lparr>formData := (formData s)\<lparr>fromToken := currency\<rparr>\<rparr>"

definition handleToTokenChange :: "string \<Rightarrow> FormState \<Rightarrow> FormState" where
  "handleToTokenChange currency s = s\<lparr>formData := (formData s)\<lparr>toToken := currency\<rparr>\<rparr>"

definition handleSwapTokens :: "FormState \<Rightarrow> FormState \<Rightarrow> FormState" where
  "handleSwapTokens r s =
     s\<lparr>formData := \<lparr>fromToken = toToken (formData r),
                     toToken = fromToken (formData r),
                     fromAmount = toAmount (formData r),
                     toAmount = fromAmount (formData r)\<rparr>,
       lastUpdatedField := (if lastUpdatedField r = From then To else From)\<rparr>"

text \<open>
  The effect that runs after a render in which \<^verbatim>\<open>exchangeRate\<close> has changed. A non-empty
  string is truthy.
\<close>

definition rateChangeEffect :: "FormState \<Rightarrow> number \<Rightarrow> FormState \<Rightarrow> FormState" where
  "rateChangeEffect r rate s =
     (if num_gt rate (Fin 0) then
        if lastUpdatedField r = From \<and> fromAmount (formData r) \<noteq> [] then
          (let numValue = parseNumber (fromAmount (formData r));
               converted = num_mul numValue rate
           in s\<lparr>formData := (formData s)
                  \<lparr>toAmount := (if num_gt converted (Fin 0) then truncateDecimals converted 6 else [])\<rparr>\<rparr>)
        else if lastUpdatedField r = To \<and> toAmount (formData r) \<noteq> [] then
          (let numValue = parseNumber (toAmount (formData r));
               converted = num_div numValue rate
           in s\<lparr>formData := (formData s)
                  \<lparr>fromAmount := (if num_gt converted (Fin 0) then truncateDecimals converted 6 else [])\<rparr>\<rparr>)
        else s
      else s)"

text \<open>
  A click on the swap-direction button, in a render whose state is \<open>s\<close> and whose price
  table is \<open>ps\<close>: the handler's update, the next render, in which \<^verbatim>\<open>exchangeRate\<close> is
  computed anew from the swapped tokens, and, when that rate is not the one of the render
  before (the dependency of the effect has changed), the rate-change effect of the new
  render.
\<close>

definition swapDirection :: "(string \<rightharpoonup> number) \<Rightarrow> FormState \<Rightarrow> FormState" where
  "swapDirection ps s =
     (let swapped = handleSwapTokens s s;
          rateBefore = exchangeRate ps (formData s);
          rateAfter = exchangeRate ps (formData swapped)
      in if rateAfter = rateBefore then swapped else rateChangeEffect swapped rateAfter swapped)"

text \<open>
  The component with its swap hook. \<open>inFlight\<close> lists the calls of \<^verbatim>\<open>executeSwap\<close> whose
  timer has not fired yet, each with the form data and the rate it was called with,
  oldest first.
\<close>

record App =
  form :: FormState
  swapHook :: SwapState
  inFlight :: "(SwapFormData \<times> number) list"

definition initialApp :: App where
  "initialApp = \<lparr>form = initialForm, swapHook = initialSwap, inFlight = []\<rparr>"

text \<open>\<^verbatim>\<open>handleSubmit\<close> up to the \<^verbatim>\<open>await\<close>: the two validations, then the call of \<^verbatim>\<open>executeSwap\<close>.\<close>

definition handleSubmit :: "App \<Rightarrow> number \<Rightarrow> App \<Rightarrow> App" where
  "handleSubmit r rate s =
     (case validateSwapAmount (fromAmount (formData (form r))) FromAmountField of
        Some amountValidation \<Rightarrow> s\<lparr>form := (form s)\<lparr>error := message amountValidation\<rparr>\<rparr>
      | None \<Rightarrow>
          (case validateTokensDifferent (fromToken (formData (form r))) (toToken (formData (form r))) of
             Some tokenValidation \<Rightarrow> s\<lparr>form := (form s)\<lparr>error := message tokenValidation\<rparr>\<rparr>
           | None \<Rightarrow>
               s\<lparr>form := (form s)\<lparr>error := []\<rparr>,
                 swapHook := executeSwap_begin (swapHook s),
                 inFlight := inFlight s @ [(formData (form r), rate)]\<rparr>))"

text \<open>
  The rest of \<^verbatim>\<open>handleSubmit\<close>, when the timer of the oldest call in flight fires: on
  success the success banner and the reset of the form from the form data of the
  submitting render; on failure the \<^verbatim>\<open>catch\<close> block, which does nothing.
\<close>

definition handleSubmit_resume :: "settlement \<Rightarrow> App \<Rightarrow> App" where
  "handleSubmit_resume res s =
     (case inFlight s of
        [] \<Rightarrow> s
      | call # rest \<Rightarrow>
          (case executeSwap_resume res (fst call) (snd call) (swapHook s) of
             (Inr transaction, sw) \<Rightarrow>
               s\<lparr>swapHook := sw,
                 form := (form s)\<lparr>showSuccess := True,
                                  formData := (fst call)\<lparr>fromAmount := [], toAmount := []\<rparr>\<rparr>,
                 inFlight := rest\<rparr>
           | (Inl err, sw) \<Rightarrow> s\<lparr>swapHook := sw, inFlight := rest\<rparr>))"

text \<open>Three seconds after a success the timer set by \<^verbatim>\<open>handleSubmit\<close> hides the banner.\<close>

definition hideSuccess :: "App \<Rightarrow> App" where
  "hideSuccess s = s\<lparr>form := (form s)\<lparr>showSuccess := False\<rparr>\<rparr>"

text \<open>
  The submit button: its \<^verbatim>\<open>disabled\<close> attribute, and a click, which reaches
  \<^verbatim>\<open>handleSubmit\<close> only when the button is enabled.
\<close>

definition submitDisabled :: "App \<Rightarrow> number \<Rightarrow> bool" where
  "submitDisabled r rate =
     (isSwapping (swapHook r) \<or>
      fromAmount (formData (form r)) = [] \<or>
      num_le (parseNumber (fromAmount (formData (form r)))) (Fin 0) \<or>
      \<not> truthy rate)"

definition clickSubmit :: "App \<Rightarrow> number \<Rightarrow> App \<Rightarrow> App" where
  "clickSubmit r rate s = (if submitDisabled r rate then s else handleSubmit r rate s)"

section \<open>Example states\<close>

text \<open>The feed of the scenarios: ETH at 3500 and USDC at 1, an entry priced zero and one without a price.\<close>

definition exampleFeed :: "TokenApiResponse list" where
  "exampleFeed =
     [\<lparr>api_currency = ''ETH'', api_price = Some (Fin 3500), api_date = ''2023-08-29T07:10:52.000Z''\<rparr>,
      \<lparr>api_currency = ''USDC'', api_price = Some (Fin 1), api_date = ''2023-08-29T07:10:40.000Z''\<rparr>,
      \<lparr>api_currency = ''LUNA'', api_price = Some (Fin 0), api_date = ''2023-08-29T07:10:50.000Z''\<rparr>,
      \<lparr>api_currency = ''KUJI'', api_price = None, api_date = ''2023-08-29T07:10:45.000Z''\<rparr>]"

definition examplePrices :: "string \<rightharpoonup> number" where
  "examplePrices = prices (fetchPrices (FetchOk exampleFeed) initialPrices)"

text \<open>The form after the user typed 2 into the "from" field, and after typing 100 into the "to" field.\<close>

definition exampleForm :: FormState where
  "exampleForm =
     \<lparr>formData = \<lparr>fromToken = ''ETH'', toToken = ''USDC'', fromAmount = ''2'',
                   toAmount = ''7000.000000''\<rparr>,
      error = [], lastUpdatedField = From, showSuccess = False\<rparr>"

definition exampleFormTo :: FormState where
  "exampleFormTo =
     \<lparr>formData = \<lparr>fromToken = ''ETH'', toToken = ''USDC'', fromAmount = ''0.028571'',
                   toAmount = ''100''\<rparr>,
      error = [], lastUpdatedField = To, showSuccess = False\<rparr>"

text \<open>
  The render of the example form in which the rate has become 3600, and the user typing
  before the effect of that render has run: 3 into the "from" field, or 100 into the "to"
  field. The handlers are those of that render.
\<close>

definition editedFrom3 :: FormState where
  "editedFrom3 = handleFromAmountChange exampleForm (Fin 3600) ''3'' exampleForm"

definition editedTo100 :: FormState where
  "editedTo100 = handleToAmountChange exampleForm (Fin 3600) ''100'' exampleForm"

definition exampleApp :: App where
  "exampleApp = \<lparr>form = exampleForm, swapHook = initialSwap, inFlight = []\<rparr>"

definition zeroApp :: App where
  "zeroApp =
     \<lparr>form = exampleForm\<lparr>formData := (formData exampleForm)\<lparr>fromAmount := ''0'', toAmount := []\<rparr>\<rparr>,
      swapHook = initialSwap, inFlight = []\<rparr>"

definition sameTokenApp :: App where
  "sameTokenApp =
     \<lparr>form = exampleForm\<lparr>formData := (formData exampleForm)\<lparr>toToken := ''ETH''\<rparr>\<rparr>,
      swapHook = initialSwap, inFlight = []\<rparr>"

text \<open>
  From the initial form, with the example prices, the user types an amount of nineteen
  digits into the "from" field; then presses the swap-direction button.
\<close>

definition largeEdit :: FormState where
  "largeEdit =
     handleFromAmountChange initialForm (exchangeRate examplePrices (formData initialForm))
       ''1000000000000000000'' initialForm"

definition largeEditSwapped :: FormState where
  "largeEditSwapped = handleSwapTokens largeEdit largeEdit"

section \<open>The number model, and evaluations\<close>

lemma ipow_nonneg: "0 \<le> n \<Longrightarrow> ipow x n = x ^ nat n"
proof (induction x n rule: ipow.induct)
  case (1 x n)
  show ?case
  proof (cases "n \<le> 0")
    case True
    with 1 show ?thesis by (simp add: ipow.simps)
  next
    case False
    then have pos: "0 < n" by simp
    have ih: "ipow (x * x) (n div 2) = (x * x) ^ nat (n div 2)"
      using 1 False by (cases "even n") auto
    show ?thesis
    proof (cases "even n")
      case True
      then have "nat n = 2 * nat (n div 2)"
        using pos by (auto elim!: evenE)
      then show ?thesis
        using False True ih
        by (subst ipow.simps) (simp add: power_mult power2_eq_square flip: power_mult_distrib)
    next
      case odd: False
      then have "nat n = Suc (2 * nat (n div 2))"
        using pos by (auto elim!: oddE simp: nat_add_distrib nat_mult_distrib)
      then show ?thesis
        using False odd ih
        by (subst ipow.simps) (simp add: power_mult power2_eq_square flip: power_mult_distrib)
    qed
  qed
qed

lemma pow_int_eq: "x \<noteq> 0 \<Longrightarrow> pow_int x k = x powi k"
  by (simp add: pow_int_def ipow_nonneg power_int_def field_simps)

lemma pow_int_pos: "0 < pow_int 2 k"
  by (simp add: pow_int_eq)

text \<open>
  The rounding of the model is the rounding of IEEE-754: \<open>ilog2\<close> finds the binade of a
  positive rational, and a finite result is a multiple of the spacing of that binade, at
  most half a spacing away from the exact value (the nearest one; a tie goes to the even
  multiple). One tenth, and the two odd integers next to \<open>2 ^ 53\<close>, round as they do in
  JavaScript.
\<close>

lemma roundHalfEven_near: "\<bar>of_int (roundHalfEven x) - x\<bar> \<le> 1 / 2"
proof -
  have "of_int \<lfloor>x\<rfloor> \<le> x" "x < of_int \<lfloor>x\<rfloor> + 1" by linarith+
  then show ?thesis
    by (auto simp: roundHalfEven_def Let_def abs_le_iff)
qed

lemma ilog2_bounds:
  assumes "0 < q"
  shows "pow_int 2 (ilog2 q) \<le> q \<and> q < pow_int 2 (ilog2 q + 1)"
proof -
  obtain a b where ab: "quotient_of q = (a, b)" by (cases "quotient_of q")
  then have b: "0 < b" and q: "q = of_int a / of_int b"
    using quotient_of_denom_pos quotient_of_div by blast+
  with assms have a: "0 < a"
    by (simp add: zero_less_divide_iff)
  define la where "la = bitlen a"
  define lb where "lb = bitlen b"
  have la: "1 \<le> la" and lb: "1 \<le> lb"
    using a b by (simp_all add: la_def lb_def bitlen_alt_def)
  have ba: "2 ^ nat (la - 1) \<le> a" "a < 2 ^ nat la"
    using bitlen_bounds [OF a] by (simp_all add: la_def)
  have bb: "2 ^ nat (lb - 1) \<le> b" "b < 2 ^ nat lb"
    using bitlen_bounds [OF b] by (simp_all add: lb_def)
  have ra: "(2::rat) powi (la - 1) \<le> of_int a" "of_int a < (2::rat) powi la"
  proof -
    have "(of_int (2 ^ nat (la - 1)) :: rat) \<le> of_int a" using ba(1) by (simp only: of_int_le_iff)
    then show "(2::rat) powi (la - 1) \<le> of_int a" using la by (simp add: power_int_def)
    have "(of_int a :: rat) < of_int (2 ^ nat la)" using ba(2) by (simp only: of_int_less_iff)
    then show "of_int a < (2::rat) powi la" using la by (simp add: power_int_def)
  qed
  have rb: "(2::rat) powi (lb - 1) \<le> of_int b" "of_int b < (2::rat) powi lb"
  proof -
    have "(of_int (2 ^ nat (lb - 1)) :: rat) \<le> of_int b" using bb(1) by (simp only: of_int_le_iff)
    then show "(2::rat) powi (lb - 1) \<le> of_int b" using lb by (simp add: power_int_def)
    have "(of_int b :: rat) < of_int (2 ^ nat lb)" using bb(2) by (simp only: of_int_less_iff)
    then show "of_int b < (2::rat) powi lb" using lb by (simp add: power_int_def)
  qed
  have bpos: "(0::rat) < of_int b" using b by simp
  have upper: "q < (2::rat) powi (la - lb + 1)"
  proof -
    have "q * of_int b = of_int a" using q bpos by simp
    also have "\<dots> < (2::rat) powi la" by (rule ra(2))
    also have "\<dots> = (2::rat) powi (la - lb + 1) * 2 powi (lb - 1)"
      by (simp flip: power_int_add)
    also have "\<dots> \<le> (2::rat) powi (la - lb + 1) * of_int b"
      using rb(1) by (intro mult_left_mono) simp_all
    finally show ?thesis using bpos by simp
  qed
  have lower: "(2::rat) powi (la - lb - 1) < q"
  proof -
    have "(2::rat) powi (la - lb - 1) * of_int b < (2::rat) powi (la - lb - 1) * 2 powi lb"
      using rb(2) by (intro mult_strict_left_mono) simp_all
    also have "\<dots> = (2::rat) powi (la - 1)"
      by (simp flip: power_int_add)
    also have "\<dots> \<le> of_int a" by (rule ra(1))
    also have "\<dots> = q * of_int b" using q bpos by simp
    finally show ?thesis using bpos by simp
  qed
  show ?thesis
  proof (cases "(2::rat) powi (la - lb) \<le> q")
    case True
    then have "ilog2 q = la - lb"
      by (simp add: ilog2_def Let_def ab la_def lb_def pow_int_eq)
    with True upper show ?thesis by (simp add: pow_int_eq)
  next
    case False
    then have "ilog2 q = la - lb - 1"
      by (simp add: ilog2_def Let_def ab la_def lb_def pow_int_eq)
    with False lower show ?thesis by (simp add: pow_int_eq)
  qed
qed

text \<open>A finite result of rounding is a multiple of the spacing of its binade, at most half a spacing away.\<close>

lemma fl_nearest:
  assumes "fl q = Fin r" and "q \<noteq> 0"
  shows "\<exists>n. r = of_int n * pow_int 2 (max (ilog2 \<bar>q\<bar>) (- 1022) - 52) \<and>
             \<bar>r - q\<bar> \<le> pow_int 2 (max (ilog2 \<bar>q\<bar>) (- 1022) - 52) / 2"
proof -
  define u where "u = pow_int 2 (max (ilog2 \<bar>q\<bar>) (- 1022) - 52)"
  have u: "0 < u" by (simp add: u_def pow_int_pos)
  define n where "n = roundHalfEven (q / u)"
  have r: "r = of_int n * u"
    using assms by (auto simp: fl_def Let_def u_def n_def split: if_splits)
  have "\<bar>of_int n - q / u\<bar> \<le> 1 / 2"
    unfolding n_def by (rule roundHalfEven_near)
  then have "\<bar>of_int n - q / u\<bar> * u \<le> 1 / 2 * u"
    using u by (intro mult_right_mono) simp_all
  moreover have "\<bar>of_int n * u - q\<bar> = \<bar>(of_int n - q / u) * u\<bar>"
    using u by (simp add: left_diff_distrib)
  moreover have "\<bar>(of_int n - q / u) * u\<bar> = \<bar>of_int n - q / u\<bar> * u"
    using u by (simp add: abs_mult)
  ultimately have "\<bar>r - q\<bar> \<le> u / 2" by (simp add: r)
  with r show ?thesis unfolding u_def by blast
qed

lemma fl_examples:
  "fl (1 / 10) = Fin (3602879701896397 / 36028797018963968)"
  "fl 9007199254740993 = Fin 9007199254740992"
  "fl 9007199254740995 = Fin 9007199254740996"
  by code_simp+


lemma validate_zero:
  "validateSwapAmount ''0'' fld = Some \<lparr>field = fld, message = ''Amount must be greater than 0''\<rparr>"
  by code_simp

lemma exampleRate: "exchangeRate examplePrices (formData initialForm) = Fin 3500"
  by code_simp

lemma largeEdit_formData:
  "formData largeEdit =
     \<lparr>fromToken = ''ETH'', toToken = ''USDC'', fromAmount = ''1000000000000000000'',
      toAmount = ''3.5e+21''\<rparr>"
  by code_simp

text \<open>
  The examples of the repository's own description of \<^verbatim>\<open>truncateDecimals\<close> (1.23456789,
  0.9999999, and 0.0123456789, which \<^verbatim>\<open>toFixed\<close> alone would round up), and the
  conversions of the scenarios with ETH at 3500 and USDC at 1.
\<close>

lemma documented_truncations:
  "truncateDecimals (parseFloat ''1.23456789'') 6 = ''1.234567''"
  "truncateDecimals (parseFloat ''0.9999999'') 6 = ''0.999999''"
  "truncateDecimals (parseFloat ''0.0123456789'') 6 = ''0.012345''"
  "toFixed (parseFloat ''0.0123456789'') 6 = ''0.012346''"
  by code_simp+

lemma scenario_conversions:
  "toAmount (formData (handleFromAmountChange initialForm
      (exchangeRate examplePrices (formData initialForm)) ''2'' initialForm)) = ''7000.000000''"
  "fromAmount (formData (handleToAmountChange initialForm
      (exchangeRate examplePrices (formData initialForm)) ''100'' initialForm)) = ''0.028571''"
  "formData (handleSwapTokens exampleForm exampleForm) =
     \<lparr>fromToken = ''USDC'', toToken = ''ETH'', fromAmount = ''7000.000000'', toAmount = ''2''\<rparr>"
  by code_simp+

section \<open>Rate changes (C1)\<close>

text \<open>
  The effect of a render \<open>r\<close>, applied to a state \<open>s\<close>, leaves the tokens, the error and
  the last-edited marker of \<open>s\<close> as they are, and it leaves the amount of the field that
  \<open>r\<close> has as last edited as it is in \<open>s\<close>. On the state of its own render, with a rate
  above zero and a non-empty amount in the last edited field, it sets the other amount to
  the conversion of that amount at the new rate. With a rate that is not above zero it
  writes nothing.
\<close>

lemma rateChangeEffect_frame:
  "fromToken (formData (rateChangeEffect r rate s)) = fromToken (formData s) \<and>
   toToken (formData (rateChangeEffect r rate s)) = toToken (formData s) \<and>
   lastUpdatedField (rateChangeEffect r rate s) = lastUpdatedField s \<and>
   error (rateChangeEffect r rate s) = error s \<and>
   (lastUpdatedField r = From \<longrightarrow>
      fromAmount (formData (rateChangeEffect r rate s)) = fromAmount (formData s)) \<and>
   (lastUpdatedField r = To \<longrightarrow>
      toAmount (formData (rateChangeEffect r rate s)) = toAmount (formData s)) \<and>
   (lastUpdatedField s = From \<and> num_gt rate (Fin 0) \<and> fromAmount (formData s) \<noteq> [] \<longrightarrow>
      toAmount (formData (rateChangeEffect s rate s)) =
        (if num_gt (num_mul (parseNumber (fromAmount (formData s))) rate) (Fin 0)
         then truncateDecimals (num_mul (parseNumber (fromAmount (formData s))) rate) 6 else [])) \<and>
   (lastUpdatedField s = To \<and> num_gt rate (Fin 0) \<and> toAmount (formData s) \<noteq> [] \<longrightarrow>
      fromAmount (formData (rateChangeEffect s rate s)) =
        (if num_gt (num_div (parseNumber (toAmount (formData s))) rate) (Fin 0)
         then truncateDecimals (num_div (parseNumber (toAmount (formData s))) rate) 6 else [])) \<and>
   (\<not> num_gt rate (Fin 0) \<longrightarrow> rateChangeEffect r rate s = s)"
  by (cases "lastUpdatedField r"; cases "lastUpdatedField s")
     (simp_all add: rateChangeEffect_def Let_def)

lemma editedFrom3_eval:
  "editedFrom3 = exampleForm\<lparr>formData :=
     \<lparr>fromToken = ''ETH'', toToken = ''USDC'', fromAmount = ''3'', toAmount = ''10800.000000''\<rparr>\<rparr>"
  by code_simp

lemma editedTo100_eval:
  "editedTo100 = exampleForm\<lparr>lastUpdatedField := To, formData :=
     \<lparr>fromToken = ''ETH'', toToken = ''USDC'', fromAmount = ''0.027777'', toAmount = ''100''\<rparr>\<rparr>"
  by code_simp

lemma conversion_2_at_3600:
  "truncateDecimals (num_mul (parseNumber ''2'') (Fin 3600)) 6 = ''7200.000000'' \<and>
   num_gt (num_mul (parseNumber ''2'') (Fin 3600)) (Fin 0)"
  by code_simp

lemma conversion_3_at_3600:
  "truncateDecimals (num_mul (parseNumber ''3'') (Fin 3600)) 6 = ''10800.000000'' \<and>
   num_gt (num_mul (parseNumber ''3'') (Fin 3600)) (Fin 0)"
  by code_simp

text \<open>
  Claim C1 says that the recomputation after a rate change writes only the field that is
  not the last edited one, from the current amount of the last edited field, and never
  overwrites the last edited amount, also when it was scheduled before a later edit. The
  effect takes \<^verbatim>\<open>lastUpdatedField\<close> and the amount to convert from its own render; only
  its write goes through \<^verbatim>\<open>prev => ...\<close>. In the render of the example form (2 ETH typed,
  7000 USDC shown) in which the rate has become 3600, the user types before the effect of
  that render runs. With 3 typed into the "from" field the form holds 3 and 10800.000000;
  the effect then writes 7200.000000, the conversion of the 2 of its render, beside the
  3, where the conversion of the current amount is 10800.000000. With 100 typed into the
  "to" field, which is then the last edited one, the effect writes 7200.000000 over the
  100.
\<close>

theorem rateChanged_reads_stale_closure:
  "formData editedFrom3 =
     \<lparr>fromToken = ''ETH'', toToken = ''USDC'', fromAmount = ''3'', toAmount = ''10800.000000''\<rparr> \<and>
   lastUpdatedField editedFrom3 = From \<and>
   formData (rateChangeEffect exampleForm (Fin 3600) editedFrom3) =
     \<lparr>fromToken = ''ETH'', toToken = ''USDC'', fromAmount = ''3'', toAmount = ''7200.000000''\<rparr> \<and>
   formData (rateChangeEffect editedFrom3 (Fin 3600) editedFrom3) =
     \<lparr>fromToken = ''ETH'', toToken = ''USDC'', fromAmount = ''3'', toAmount = ''10800.000000''\<rparr> \<and>
   formData editedTo100 =
     \<lparr>fromToken = ''ETH'', toToken = ''USDC'', fromAmount = ''0.027777'', toAmount = ''100''\<rparr> \<and>
   lastUpdatedField editedTo100 = To \<and>
   formData (rateChangeEffect exampleForm (Fin 3600) editedTo100) =
     \<lparr>fromToken = ''ETH'', toToken = ''USDC'', fromAmount = ''0.027777'', toAmount = ''7200.000000''\<rparr> \<and>
   lastUpdatedField (rateChangeEffect exampleForm (Fin 3600) editedTo100) = To"
  unfolding editedFrom3_eval editedTo100_eval
  using conversion_2_at_3600 conversion_3_at_3600
  by (simp add: rateChangeEffect_def exampleForm_def Let_def)

section \<open>The guard against a second submission (C2)\<close>

text \<open>
  Claim C2 says that a call of submit() during a swap in flight is rejected without a
  second call of the executor. \<open>handleSubmit\<close> has no such guard: called again while the
  first swap is in flight, it calls \<open>executeSwap\<close> a second time and two swaps are in flight.
\<close>

theorem handleSubmit_reentrant_counterexample:
  "isSwapping (swapHook (handleSubmit exampleApp (Fin 3500) exampleApp)) \<and>
   inFlight (handleSubmit (handleSubmit exampleApp (Fin 3500) exampleApp) (Fin 3500)
               (handleSubmit exampleApp (Fin 3500) exampleApp)) =
     [(formData exampleForm, Fin 3500), (formData exampleForm, Fin 3500)]"
  by code_simp

text \<open>
  Claim C2, amended. The guard is the \<open>disabled\<close> attribute of the submit button: while
  \<open>isSwapping\<close> holds a click leaves the state as it is, \<open>handleSubmit\<close> sets \<open>isSwapping\<close>
  whenever it calls the executor, and so, when submissions come from clicks on the button,
  at most one swap is in flight and \<open>isSwapping\<close> holds while it is.
\<close>

theorem submit_button_guard:
  "(isSwapping (swapHook r) \<longrightarrow> clickSubmit r rate s = s) \<and>
   (inFlight (handleSubmit r rate s) \<noteq> inFlight s \<longrightarrow>
      isSwapping (swapHook (handleSubmit r rate s))) \<and>
   (length (inFlight s) \<le> 1 \<and> (inFlight s \<noteq> [] \<longrightarrow> isSwapping (swapHook s)) \<longrightarrow>
      length (inFlight (clickSubmit s rate s)) \<le> 1 \<and>
      (inFlight (clickSubmit s rate s) \<noteq> [] \<longrightarrow> isSwapping (swapHook (clickSubmit s rate s))) \<and>
      length (inFlight (handleSubmit_resume res s)) \<le> 1 \<and>
      (inFlight (handleSubmit_resume res s) \<noteq> [] \<longrightarrow>
         isSwapping (swapHook (handleSubmit_resume res s))))"
proof (intro conjI impI)
  show "clickSubmit r rate s = s" if "isSwapping (swapHook r)"
    using that by (simp add: clickSubmit_def submitDisabled_def)
  show "isSwapping (swapHook (handleSubmit r rate s))"
    if "inFlight (handleSubmit r rate s) \<noteq> inFlight s"
    using that by (auto simp: handleSubmit_def executeSwap_begin_def split: option.splits)
next
  assume inv: "length (inFlight s) \<le> 1 \<and> (inFlight s \<noteq> [] \<longrightarrow> isSwapping (swapHook s))"
  show "length (inFlight (clickSubmit s rate s)) \<le> 1"
    using inv
    by (auto simp: clickSubmit_def submitDisabled_def handleSubmit_def split: option.splits)
  show "isSwapping (swapHook (clickSubmit s rate s))" if "inFlight (clickSubmit s rate s) \<noteq> []"
    using inv that
    by (auto simp: clickSubmit_def submitDisabled_def handleSubmit_def executeSwap_begin_def
             split: option.splits if_splits)
  show "length (inFlight (handleSubmit_resume res s)) \<le> 1"
    using inv by (auto simp: handleSubmit_resume_def split: list.splits prod.splits sum.splits)
  show "isSwapping (swapHook (handleSubmit_resume res s))"
    if "inFlight (handleSubmit_resume res s) \<noteq> []"
    using inv that
    by (auto simp: handleSubmit_resume_def split: list.splits prod.splits sum.splits)
qed

text \<open>After the example form has been submitted, a click on the button changes nothing.\<close>

theorem submit_button_guard_witness:
  "clickSubmit (handleSubmit exampleApp (Fin 3500) exampleApp) (Fin 3500)
     (handleSubmit exampleApp (Fin 3500) exampleApp) =
     handleSubmit exampleApp (Fin 3500) exampleApp \<and>
   length (inFlight (clickSubmit (handleSubmit exampleApp (Fin 3500) exampleApp) (Fin 3500)
     (handleSubmit exampleApp (Fin 3500) exampleApp))) \<le> 1"
proof -
  let ?s = "handleSubmit exampleApp (Fin 3500) exampleApp"
  note T = submit_button_guard [of ?s "Fin 3500" ?s RandomFailure]
  have sw: "isSwapping (swapHook ?s)"
    by code_simp
  have inv: "length (inFlight ?s) \<le> 1 \<and> (inFlight ?s \<noteq> [] \<longrightarrow> isSwapping (swapHook ?s))"
    by code_simp
  from T sw have a: "clickSubmit ?s (Fin 3500) ?s = ?s"
    by blast
  from T inv have b: "length (inFlight (clickSubmit ?s (Fin 3500) ?s)) \<le> 1"
    by blast
  from a b show ?thesis by blast
qed

section \<open>Swapping the direction (C3)\<close>

text \<open>
  The handler's own update exchanges the two tokens and the two amounts in a single
  \<^verbatim>\<open>setFormData\<close> and flips the last-edited marker; applied twice, with no render in
  between taken into account, it gives back the state it started from.
\<close>

lemma handleSwapTokens_involution:
  "handleSwapTokens (handleSwapTokens s s) (handleSwapTokens s s) = s \<and>
   fromToken (formData (handleSwapTokens s s)) = toToken (formData s) \<and>
   toToken (formData (handleSwapTokens s s)) = fromToken (formData s) \<and>
   fromAmount (formData (handleSwapTokens s s)) = toAmount (formData s) \<and>
   toAmount (formData (handleSwapTokens s s)) = fromAmount (formData s) \<and>
   lastUpdatedField (handleSwapTokens s s) \<noteq> lastUpdatedField s \<and>
   error (handleSwapTokens s s) = error s \<and>
   showSuccess (handleSwapTokens s s) = showSuccess s"
  by (cases "lastUpdatedField s") (simp_all add: handleSwapTokens_def)

lemma rate_USDC_ETH:
  "exchangeRate examplePrices \<lparr>fromToken = ''USDC'', toToken = ''ETH'', fromAmount = a, toAmount = b\<rparr> =
     Fin (2635249153387079 / 9223372036854775808)"
  by code_simp

lemma rate_ETH_USDC:
  "exchangeRate examplePrices \<lparr>fromToken = ''ETH'', toToken = ''USDC'', fromAmount = a, toAmount = b\<rparr> =
     Fin 3500"
  by code_simp

lemma conversion_back_to_USDC:
  "truncateDecimals (num_div (parseNumber ''2'') (Fin (2635249153387079 / 9223372036854775808))) 6 =
     ''6999.999999'' \<and>
   num_gt (num_div (parseNumber ''2'') (Fin (2635249153387079 / 9223372036854775808))) (Fin 0) \<and>
   num_gt (Fin (2635249153387079 / 9223372036854775808)) (Fin 0)"
  by code_simp

lemma conversion_2_at_3500:
  "truncateDecimals (num_mul (parseNumber ''2'') (Fin 3500)) 6 = ''7000.000000'' \<and>
   num_gt (num_mul (parseNumber ''2'') (Fin 3500)) (Fin 0)"
  by code_simp

lemma swapDirection_example:
  "swapDirection examplePrices exampleForm =
     exampleForm\<lparr>lastUpdatedField := To, formData :=
       \<lparr>fromToken = ''USDC'', toToken = ''ETH'', fromAmount = ''6999.999999'', toAmount = ''2''\<rparr>\<rparr>"
  using conversion_back_to_USDC
  by (simp add: swapDirection_def handleSwapTokens_def exampleForm_def Let_def
        rate_USDC_ETH rate_ETH_USDC rateChangeEffect_def)

text \<open>
  Claim C3 says that one swap of the direction exchanges the two tokens and the two
  amounts and flips the last-edited marker, and that two swaps restore the state. The
  swap changes \<^verbatim>\<open>exchangeRate\<close>, so the rate-change effect runs after the handler's
  update and computes the amount that is now not the last edited one anew. In the example
  form (2 ETH typed, 7000.000000 USDC shown, rate 3500) the handler puts 7000.000000 into
  the "from" field and 2 into the "to" field; the rate becomes the binary64 quotient
  \<open>1 / 3500\<close>, which is \<open>2635249153387079 / 2 ^ 63\<close>, and the effect replaces the
  7000.000000 by the truncation of \<open>2 / rate\<close>, which is 6999.999999. A second swap gives
  back the example form, its effect computing 7000.000000 from the 2 again.
\<close>

theorem swapDirection_rewrites_amount:
  "formData exampleForm =
     \<lparr>fromToken = ''ETH'', toToken = ''USDC'', fromAmount = ''2'', toAmount = ''7000.000000''\<rparr> \<and>
   exchangeRate examplePrices (formData exampleForm) = Fin 3500 \<and>
   formData (handleSwapTokens exampleForm exampleForm) =
     \<lparr>fromToken = ''USDC'', toToken = ''ETH'', fromAmount = ''7000.000000'', toAmount = ''2''\<rparr> \<and>
   exchangeRate examplePrices (formData (handleSwapTokens exampleForm exampleForm)) =
     Fin (2635249153387079 / 9223372036854775808) \<and>
   formData (swapDirection examplePrices exampleForm) =
     \<lparr>fromToken = ''USDC'', toToken = ''ETH'', fromAmount = ''6999.999999'', toAmount = ''2''\<rparr> \<and>
   lastUpdatedField (swapDirection examplePrices exampleForm) = To \<and>
   swapDirection examplePrices (swapDirection examplePrices exampleForm) = exampleForm"
  unfolding swapDirection_example
  using conversion_2_at_3500 conversion_back_to_USDC
  by (simp add: swapDirection_def handleSwapTokens_def exampleForm_def Let_def
        rate_USDC_ETH rate_ETH_USDC rateChangeEffect_def)

section \<open>Truncation (C4)\<close>

text \<open>
  Claim C4 says that the conversion truncates and never rounds up, so that the number
  shown never exceeds the raw product. In binary64 arithmetic \<open>value * 1000000\<close> is
  itself rounded, and it can round up to an integer that the exact product does not
  reach. The amount 0.00010899999999999999 at rate 1 gives the raw product
  \<open>2010695104034341 / 2 ^ 64\<close>, below 0.000109; times 1000000 it rounds to 109, and the
  form shows 0.000109: more than the raw product, and more than the amount typed.
\<close>

theorem truncateDecimals_rounds_up:
  "toAmount (formData (handleFromAmountChange initialForm (Fin 1) ''0.00010899999999999999''
      initialForm)) = ''0.000109'' \<and>
   num_mul (parseNumber ''0.00010899999999999999'') (Fin 1) =
      Fin (2010695104034341 / 18446744073709551616) \<and>
   (2010695104034341 / 18446744073709551616 :: rat) < 109 / 1000000 \<and>
   num_mul (Fin (2010695104034341 / 18446744073709551616)) (fl (ipow 10 6)) = Fin 109 \<and>
   num_gt (parseFloat ''0.000109'') (num_mul (parseNumber ''0.00010899999999999999'') (Fin 1))"
  by code_simp

section \<open>The conversion result (C5)\<close>

text \<open>
  Claim C5 says that a conversion with a raw value above zero is rendered with exactly
  six decimal digits. \<open>toFixed\<close> renders a number from \<open>10 ^ 21\<close> on in exponent
  notation: with ETH at 3500 and USDC at 1, the amount 1000000000000000000 typed into the
  "from" field is converted to the string 3.5e+21.
\<close>

theorem conversion_exponent_notation:
  "toAmount (formData (handleFromAmountChange initialForm
      (exchangeRate examplePrices (formData initialForm)) ''1000000000000000000'' initialForm)) =
     ''3.5e+21''"
  using largeEdit_formData by (simp add: largeEdit_def)

text \<open>
  The rest of claim C5 holds: an accepted edit leaves the other field empty when the rate
  is zero (as it is when a price is absent or zero), and whenever the raw converted value
  is not above zero; that is so also when the rate is NaN, as it is when a token name is
  no key of the table but the name of an inherited property.
\<close>

lemma num_mul_zero_not_positive: "\<not> num_gt (num_mul a (Fin 0)) (Fin 0)"
  by (cases a) (simp_all add: fl_def inf_of_sgn_def)

lemma exchangeRate_absent:
  "getProp ps (fromToken fd) = Undefined \<or> getProp ps (toToken fd) = Undefined \<or>
   getProp ps (fromToken fd) = Num (Fin 0) \<or> getProp ps (toToken fd) = Num (Fin 0) \<Longrightarrow>
   exchangeRate ps fd = Fin 0"
  by (auto simp: exchangeRate_def Let_def truthy_def)

lemma exchangeRate_inherited:
  "getProp ps (fromToken fd) = Inherited \<and> truthyValue (getProp ps (toToken fd)) \<or>
   truthyValue (getProp ps (fromToken fd)) \<and> getProp ps (toToken fd) = Inherited \<Longrightarrow>
   exchangeRate ps fd = NaN"
  by (cases "toNumber (getProp ps (fromToken fd))") (auto simp: exchangeRate_def Let_def)

lemma exchangeRate_inherited_example:
  "exchangeRate examplePrices
     \<lparr>fromToken = ''constructor'', toToken = ''ETH'', fromAmount = a, toAmount = b\<rparr> = NaN \<and>
   exchangeRate examplePrices
     \<lparr>fromToken = ''DOGE'', toToken = ''ETH'', fromAmount = a, toAmount = b\<rparr> = Fin 0"
  by code_simp

lemma conversion_empty_without_rate:
  "v = [] \<or> amountPattern v \<Longrightarrow>
   toAmount (formData (handleFromAmountChange r (Fin 0) v s)) = [] \<and>
   fromAmount (formData (handleToAmountChange r (Fin 0) v s)) = []"
  by (auto simp: handleFromAmountChange_def handleToAmountChange_def Let_def
        num_mul_zero_not_positive)

lemma conversion_empty_when_not_positive:
  "v = [] \<or> amountPattern v \<Longrightarrow>
   (\<not> num_gt (num_mul (parseNumber v) rate) (Fin 0) \<longrightarrow>
      toAmount (formData (handleFromAmountChange r rate v s)) = []) \<and>
   (\<not> num_gt rate (Fin 0) \<or> \<not> num_gt (num_div (parseNumber v) rate) (Fin 0) \<longrightarrow>
      fromAmount (formData (handleToAmountChange r rate v s)) = [])"
  by (auto simp: handleFromAmountChange_def handleToAmountChange_def Let_def)

lemma isDigit_char_of: "0 \<le> d \<Longrightarrow> d < 10 \<Longrightarrow> isDigit (char_of (48 + d :: int))"
proof -
  assume "0 \<le> d" "d < 10"
  then have "d = 0 \<or> d = 1 \<or> d = 2 \<or> d = 3 \<or> d = 4 \<or> d = 5 \<or> d = 6 \<or> d = 7 \<or> d = 8 \<or> d = 9"
    by arith
  then show ?thesis
    by (elim disjE; hypsubst; code_simp)
qed

lemma decDigits_digits: "0 \<le> n \<Longrightarrow> decDigits n \<noteq> [] \<and> list_all isDigit (decDigits n)"
proof (induction n rule: decDigits.induct)
  case (1 n)
  show ?case
  proof (cases "n < 10")
    case True
    with 1(2) show ?thesis
      by (subst decDigits.simps, subst decDigits.simps) (simp add: isDigit_char_of)
  next
    case False
    with 1 have ih: "list_all isDigit (decDigits (n div 10))" by simp
    have "isDigit (char_of (48 + n mod 10))"
      by (rule isDigit_char_of) simp_all
    with False ih show ?thesis
      by (subst decDigits.simps, subst decDigits.simps) simp
  qed
qed

lemma amountPattern_decimal:
  "list_all isDigit ip \<Longrightarrow> list_all isDigit fp \<Longrightarrow> amountPattern (ip @ CHR ''.'' # fp)"
proof -
  assume ip: "list_all isDigit ip" and fp: "list_all isDigit fp"
  have nd: "\<not> isDigit CHR ''.''" by (simp add: isDigit_def)
  from ip have "dropWhile isDigit (ip @ CHR ''.'' # fp) = dropWhile isDigit (CHR ''.'' # fp)"
    by (simp add: dropWhile_append list_all_iff)
  with nd fp show ?thesis by (simp add: amountPattern_def)
qed

lemma ipow_10_6: "ipow 10 6 = 1000000" by code_simp
lemma multiplier_6: "fl (ipow 10 6) = Fin 1000000" by code_simp
lemma ipow_10_21: "ipow 10 21 = 1000000000000000000000" by code_simp

lemma toFixedDigits_shape:
  assumes "0 \<le> x"
  shows "\<exists>ip fp. toFixedDigits x 6 = ip @ CHR ''.'' # fp \<and> ip \<noteq> [] \<and> list_all isDigit ip \<and>
           length fp = 6 \<and> list_all isDigit fp"
proof -
  define n where "n = \<lfloor>x * 1000000 + 1 / 2\<rfloor>"
  define m where "m = decDigits n"
  define m' where "m' = (if length m \<le> 6 then replicate (7 - length m) CHR ''0'' @ m else m)"
  have "0 \<le> n" using assms by (simp add: n_def)
  then have m: "m \<noteq> []" "list_all isDigit m"
    using decDigits_digits [of n] by (simp_all add: m_def)
  have z: "isDigit CHR ''0''" by (simp add: isDigit_def)
  have len: "7 \<le> length m'" using m by (auto simp: m'_def)
  have dig: "list_all isDigit m'" using m z by (auto simp: m'_def list_all_iff)
  have eq: "toFixedDigits x 6 = take (length m' - 6) m' @ CHR ''.'' # drop (length m' - 6) m'"
    by (simp add: toFixedDigits_def Let_def ipow_10_6 n_def m_def m'_def)
  show ?thesis
  proof (intro exI conjI)
    show "toFixedDigits x 6 = take (length m' - 6) m' @ CHR ''.'' # drop (length m' - 6) m'"
      by (rule eq)
    show "take (length m' - 6) m' \<noteq> []" using len by auto
    show "list_all isDigit (take (length m' - 6) m')"
      using dig by (auto simp: list_all_iff dest: in_set_takeD)
    show "length (drop (length m' - 6) m') = 6" using len by simp
    show "list_all isDigit (drop (length m' - 6) m')"
      using dig by (auto simp: list_all_iff dest: in_set_dropD)
  qed
qed

lemma roundHalfEven_nonneg: "0 \<le> q \<Longrightarrow> 0 \<le> roundHalfEven q"
  by (auto simp: roundHalfEven_def Let_def)

lemma fl_nonneg: "0 \<le> q \<Longrightarrow> fl q = PInf \<or> (\<exists>r. fl q = Fin r \<and> 0 \<le> r)"
  by (auto simp: fl_def Let_def roundHalfEven_nonneg pow_int_pos less_imp_le
        intro!: mult_nonneg_nonneg divide_nonneg_pos)

lemma truncateDecimals_shape:
  assumes "num_gt v (Fin 0)"
  shows "truncateDecimals v 6 = ''Infinity'' \<or>
         (\<exists>x. 1000000000000000000000 \<le> x \<and> truncateDecimals v 6 = toStringLarge x) \<or>
         (\<exists>ip fp. truncateDecimals v 6 = ip @ CHR ''.'' # fp \<and> ip \<noteq> [] \<and> list_all isDigit ip \<and>
            length fp = 6 \<and> list_all isDigit fp)"
proof -
  define a where "a = num_mul v (Fin 1000000)"
  define t where "t = num_div (Math_floor a) (Fin 1000000)"
  have tr: "truncateDecimals v 6 = toFixed t 6"
    by (simp add: truncateDecimals_def Let_def multiplier_6 a_def t_def)
  have a: "a = PInf \<or> (\<exists>r. a = Fin r \<and> 0 \<le> r)"
  proof (cases v)
    case (Fin q)
    with assms have "0 < q" by simp
    then show ?thesis
      using fl_nonneg [of "q * 1000000"] by (simp add: a_def Fin)
  next
    case PInf
    then show ?thesis by (simp add: a_def inf_of_sgn_def)
  qed (use assms in simp_all)
  have t: "t = PInf \<or> (\<exists>r. t = Fin r \<and> 0 \<le> r)"
    using a
  proof
    assume "a = PInf"
    then show ?thesis by (simp add: t_def inf_of_sgn_def)
  next
    assume "\<exists>r. a = Fin r \<and> 0 \<le> r"
    then obtain r where r: "a = Fin r" "0 \<le> r" by blast
    then show ?thesis
      using fl_nonneg [of "of_int \<lfloor>r\<rfloor> / 1000000"] by (simp add: t_def)
  qed
  then show ?thesis
  proof
    assume "t = PInf"
    then show ?thesis by (simp add: tr)
  next
    assume "\<exists>r. t = Fin r \<and> 0 \<le> r"
    then obtain r where r: "t = Fin r" "0 \<le> r" by blast
    show ?thesis
    proof (cases "1000000000000000000000 \<le> r")
      case True
      with r show ?thesis by (auto simp: tr ipow_10_21)
    next
      case False
      with r toFixedDigits_shape [of r] show ?thesis
        by (simp add: tr ipow_10_21)
    qed
  qed
qed

text \<open>
  Every conversion writes \<^verbatim>\<open>converted > 0 ? truncateDecimals(converted, 6) : ''\<close>.
  The value written is empty, or digits with a dot and exactly six decimals (which matches
  the amount pattern), or, where the truncated number has reached \<open>10 ^ 21\<close> or has
  overflowed, the exponent notation of \<^verbatim>\<open>toString\<close> or \<^verbatim>\<open>Infinity\<close>.
\<close>

lemma converted_amount_shape:
  assumes "out = (if num_gt c (Fin 0) then truncateDecimals c 6 else [])"
  shows "out = [] \<or> out = ''Infinity'' \<or>
         (\<exists>x. 1000000000000000000000 \<le> x \<and> out = toStringLarge x) \<or>
         (amountPattern out \<and>
          (\<exists>ip fp. out = ip @ CHR ''.'' # fp \<and> ip \<noteq> [] \<and> list_all isDigit ip \<and>
             length fp = 6 \<and> list_all isDigit fp))"
proof (cases "num_gt c (Fin 0)")
  case True
  from truncateDecimals_shape [OF True] assms True show ?thesis
    by (auto simp: amountPattern_decimal)
next
  case False
  with assms show ?thesis by simp
qed

lemma edit_amount_shape:
  assumes "v = [] \<or> amountPattern v"
  shows "toAmount (formData (handleFromAmountChange r rate v s)) =
           (if num_gt (num_mul (parseNumber v) rate) (Fin 0)
            then truncateDecimals (num_mul (parseNumber v) rate) 6 else []) \<and>
         fromAmount (formData (handleToAmountChange r rate v s)) =
           (if num_gt (if num_gt rate (Fin 0) then num_div (parseNumber v) rate else Fin 0) (Fin 0)
            then truncateDecimals (if num_gt rate (Fin 0) then num_div (parseNumber v) rate else Fin 0) 6
            else [])"
  using assms by (auto simp: handleFromAmountChange_def handleToAmountChange_def Let_def)

section \<open>Refreshing the prices (C6)\<close>

lemma foldl_setProp_map_of:
  "foldl (\<lambda>acc tp. setProp acc (api_currency (fst tp)) (snd tp)) m vts =
     m ++ map_of (rev (map (\<lambda>tp. (api_currency (fst tp), snd tp))
                        (filter (\<lambda>tp. api_currency (fst tp) \<noteq> ''__proto__'') vts)))"
  by (induction vts arbitrary: m) (simp_all add: setProp_def map_add_upd_left)

lemma validTokens_set:
  "set (validTokens data) = {(t, p). t \<in> set data \<and> api_price t = Some p}"
  by (induction data) (auto simp: validTokens_def split: option.splits)

lemma pricesMap_SomeD:
  "pricesMap vts c = Some p \<Longrightarrow> \<exists>tp \<in> set vts. api_currency (fst tp) = c \<and> snd tp = p"
  unfolding pricesMap_def foldl_setProp_map_of
  by (auto dest!: map_of_SomeD)

lemma pricesMap_dom:
  "dom (pricesMap vts) =
     (\<lambda>tp. api_currency (fst tp)) ` {tp \<in> set vts. api_currency (fst tp) \<noteq> ''__proto__''}"
  unfolding pricesMap_def foldl_setProp_map_of
  by (auto simp: dom_map_of_conv_image_fst image_image)

text \<open>A number read from the table is the price of a fetched entry of that currency.\<close>

lemma getProp_pricesMap:
  "getProp (pricesMap vts) c = Num p \<Longrightarrow> \<exists>tp \<in> set vts. api_currency (fst tp) = c \<and> snd tp = p"
  using pricesMap_SomeD [of vts c p]
  by (auto simp: getProp_def split: if_splits option.splits)

text \<open>
  A feed entry named \<^verbatim>\<open>__proto__\<close> gives no key, and reading that name gives the
  inherited object, not a price.
\<close>

lemma pricesMap_proto_example:
  "pricesMap (validTokens [\<lparr>api_currency = ''__proto__'', api_price = Some (Fin 5),
                            api_date = ''2023-08-29T07:10:52.000Z''\<rparr>]) = Map.empty \<and>
   getProp Map.empty ''__proto__'' = Inherited \<and>
   getProp Map.empty ''ETH'' = Undefined"
  by (simp add: pricesMap_def validTokens_def List.map_filter_simps setProp_def getProp_def
        objectPrototypeNames_def)

text \<open>
  Claim C6 says that after a successful refresh every key of the table maps to a price
  above zero. The filter keeps every entry whose price is not \<open>null\<close>: the example feed
  has LUNA at price 0, and the table maps LUNA to 0.
\<close>

theorem refresh_zero_price_counterexample:
  "prices (fetchPrices (FetchOk exampleFeed) initialPrices) ''LUNA'' = Some (Fin 0) \<and>
   \<not> num_gt (Fin 0) (Fin 0)"
  by (simp add: fetchPrices_def exampleFeed_def validTokens_def pricesMap_def setProp_def)

text \<open>
  Claim C6, amended. A successful refresh replaces the table atomically and wholly and
  clears the error: the new table is built from the fetched entries alone, in a local
  object, and installed by one \<^verbatim>\<open>setPrices\<close>, whatever the table was before. Every entry
  of it is the price of a fetched entry with that currency, a price that is not \<open>null\<close>
  and may be zero or negative; its keys are the currencies of the fetched entries that
  have a price, except \<^verbatim>\<open>__proto__\<close>, for which the assignment creates no key. A failed
  refresh empties the table and the token list and sets the error.
\<close>

theorem refresh_replaces_or_clears:
  "prices (fetchPrices (FetchOk data) st) = pricesMap (validTokens data) \<and>
   prices_error (fetchPrices (FetchOk data) st) = None \<and>
   (prices (fetchPrices (FetchOk data) st) c = Some p \<longrightarrow>
      (\<exists>t \<in> set data. api_currency t = c \<and> api_price t = Some p)) \<and>
   dom (prices (fetchPrices (FetchOk data) st)) =
      {api_currency t | t. t \<in> set data \<and> api_price t \<noteq> None \<and>
         api_currency t \<noteq> ''__proto__''} \<and>
   prices (fetchPrices FetchFailed st) = Map.empty \<and>
   tokens (fetchPrices FetchFailed st) = [] \<and>
   prices_error (fetchPrices FetchFailed st) =
      Some ''Failed to load token prices. Please try again later.''"
proof (intro conjI impI)
  show "prices (fetchPrices (FetchOk data) st) c = Some p \<Longrightarrow>
      \<exists>t \<in> set data. api_currency t = c \<and> api_price t = Some p"
    using pricesMap_SomeD [of "validTokens data" c p]
    by (auto simp: fetchPrices_def validTokens_set)
  show "dom (prices (fetchPrices (FetchOk data) st)) =
      {api_currency t | t. t \<in> set data \<and> api_price t \<noteq> None \<and>
         api_currency t \<noteq> ''__proto__''}"
    by (force simp: fetchPrices_def pricesMap_dom validTokens_set image_iff)
qed (simp_all add: fetchPrices_def)

text \<open>In the table of the example feed ETH is at 3500, from the feed's ETH entry, and KUJI, which has no price, is no key.\<close>

theorem refresh_replaces_or_clears_witness:
  "prices (fetchPrices (FetchOk exampleFeed) initialPrices) ''ETH'' = Some (Fin 3500) \<and>
   (\<exists>t \<in> set exampleFeed. api_currency t = ''ETH'' \<and> api_price t = Some (Fin 3500)) \<and>
   ''KUJI'' \<notin> {api_currency t | t. t \<in> set exampleFeed \<and> api_price t \<noteq> None \<and>
                  api_currency t \<noteq> ''__proto__''}"
proof -
  note T = refresh_replaces_or_clears [of exampleFeed initialPrices "''ETH''" "Fin 3500"]
  have e: "prices (fetchPrices (FetchOk exampleFeed) initialPrices) ''ETH'' = Some (Fin 3500)"
    by (simp add: fetchPrices_def exampleFeed_def validTokens_def pricesMap_def setProp_def)
  have k: "''KUJI'' \<notin> dom (prices (fetchPrices (FetchOk exampleFeed) initialPrices))"
    by (simp add: domIff fetchPrices_def exampleFeed_def validTokens_def pricesMap_def setProp_def)
  from T e have ex: "\<exists>t \<in> set exampleFeed. api_currency t = ''ETH'' \<and> api_price t = Some (Fin 3500)"
    by blast
  from T have "dom (prices (fetchPrices (FetchOk exampleFeed) initialPrices)) =
      {api_currency t | t. t \<in> set exampleFeed \<and> api_price t \<noteq> None \<and>
         api_currency t \<noteq> ''__proto__''}"
    by blast
  with k have "''KUJI'' \<notin> {api_currency t | t. t \<in> set exampleFeed \<and> api_price t \<noteq> None \<and>
         api_currency t \<noteq> ''__proto__''}"
    by blast
  with e ex show ?thesis by blast
qed

section \<open>Validation at submit (C7)\<close>

lemma validateSwapAmount_None_iff:
  "validateSwapAmount a fld = None \<longleftrightarrow>
     a \<noteq> [] \<and> trim a \<noteq> [] \<and> amountPattern a \<and>
     (\<exists>q. parseFloat a = Fin q \<and> 0 < q \<and> q \<le> 9007199254740991)"
  by (cases "parseFloat a")
     (auto simp: validateSwapAmount_def Let_def isNaN_def MAX_SAFE_INTEGER_def)

lemma validateSwapAmount_messages:
  "validateSwapAmount a fld = Some e \<Longrightarrow>
     message e \<in> {''Amount is required'', ''Please enter a valid number'',
                  ''Amount must be greater than 0'', ''Amount is too large''}"
  by (auto simp: validateSwapAmount_def Let_def split: if_splits)

text \<open>
  Claim C7. \<open>handleSubmit\<close> calls the executor exactly when the amount is non-empty (also
  after trimming), matches the amount pattern, parses to a finite number above zero and
  at most \<open>2 ^ 53 - 1\<close>, and the two tokens differ. Otherwise it sets one of the five
  validation messages and changes neither the swap hook nor the form data. With the
  amount 0 the message is "Amount must be greater than 0"; with equal tokens the executor
  is not called and, the amount check coming first, the message is "Cannot swap the same
  token" when the amount itself is valid.
\<close>

theorem handleSubmit_validation:
  "(inFlight (handleSubmit r rate s) \<noteq> inFlight s \<longleftrightarrow>
      fromAmount (formData (form r)) \<noteq> [] \<and>
      trim (fromAmount (formData (form r))) \<noteq> [] \<and>
      amountPattern (fromAmount (formData (form r))) \<and>
      (\<exists>q. parseFloat (fromAmount (formData (form r))) = Fin q \<and> 0 < q \<and> q \<le> 9007199254740991) \<and>
      fromToken (formData (form r)) \<noteq> toToken (formData (form r))) \<and>
   (inFlight (handleSubmit r rate s) = inFlight s \<longrightarrow>
      swapHook (handleSubmit r rate s) = swapHook s \<and>
      formData (form (handleSubmit r rate s)) = formData (form s) \<and>
      error (form (handleSubmit r rate s)) \<in>
        {''Amount is required'', ''Please enter a valid number'', ''Amount must be greater than 0'',
         ''Amount is too large'', ''Cannot swap the same token''}) \<and>
   (fromAmount (formData (form r)) = ''0'' \<longrightarrow>
      error (form (handleSubmit r rate s)) = ''Amount must be greater than 0'' \<and>
      inFlight (handleSubmit r rate s) = inFlight s) \<and>
   (fromToken (formData (form r)) = toToken (formData (form r)) \<longrightarrow>
      inFlight (handleSubmit r rate s) = inFlight s \<and>
      (validateSwapAmount (fromAmount (formData (form r))) FromAmountField = None \<longrightarrow>
         error (form (handleSubmit r rate s)) = ''Cannot swap the same token''))"
proof (intro conjI impI)
  have "inFlight (handleSubmit r rate s) \<noteq> inFlight s \<longleftrightarrow>
      validateSwapAmount (fromAmount (formData (form r))) FromAmountField = None \<and>
      fromToken (formData (form r)) \<noteq> toToken (formData (form r))"
    by (auto simp: handleSubmit_def validateTokensDifferent_def split: option.splits)
  then show "inFlight (handleSubmit r rate s) \<noteq> inFlight s \<longleftrightarrow>
      fromAmount (formData (form r)) \<noteq> [] \<and>
      trim (fromAmount (formData (form r))) \<noteq> [] \<and>
      amountPattern (fromAmount (formData (form r))) \<and>
      (\<exists>q. parseFloat (fromAmount (formData (form r))) = Fin q \<and> 0 < q \<and> q \<le> 9007199254740991) \<and>
      fromToken (formData (form r)) \<noteq> toToken (formData (form r))"
    by (simp only: validateSwapAmount_None_iff conj_assoc)
next
  assume same: "inFlight (handleSubmit r rate s) = inFlight s"
  show "swapHook (handleSubmit r rate s) = swapHook s"
    using same by (auto simp: handleSubmit_def split: option.splits)
  show "formData (form (handleSubmit r rate s)) = formData (form s)"
    by (auto simp: handleSubmit_def split: option.splits)
  show "error (form (handleSubmit r rate s)) \<in>
        {''Amount is required'', ''Please enter a valid number'', ''Amount must be greater than 0'',
         ''Amount is too large'', ''Cannot swap the same token''}"
    using same validateSwapAmount_messages [of "fromAmount (formData (form r))" FromAmountField]
    by (auto simp: handleSubmit_def validateTokensDifferent_def split: option.splits if_splits)
next
  assume z: "fromAmount (formData (form r)) = ''0''"
  show "error (form (handleSubmit r rate s)) = ''Amount must be greater than 0''"
    by (simp add: handleSubmit_def z validate_zero)
  show "inFlight (handleSubmit r rate s) = inFlight s"
    by (simp add: handleSubmit_def z validate_zero)
next
  assume eq: "fromToken (formData (form r)) = toToken (formData (form r))"
  show "inFlight (handleSubmit r rate s) = inFlight s"
    using eq by (auto simp: handleSubmit_def validateTokensDifferent_def split: option.splits)
  show "error (form (handleSubmit r rate s)) = ''Cannot swap the same token''"
    if "validateSwapAmount (fromAmount (formData (form r))) FromAmountField = None"
    using eq that by (simp add: handleSubmit_def validateTokensDifferent_def)
qed

text \<open>
  The example form (2 ETH to USDC) reaches the executor; with the amount 0, and with ETH
  on both sides, the executor is not called and the two messages of the scenarios are set.
\<close>

theorem handleSubmit_validation_witness:
  "inFlight (handleSubmit exampleApp (Fin 3500) exampleApp) \<noteq> inFlight exampleApp \<and>
   error (form (handleSubmit zeroApp (Fin 3500) zeroApp)) = ''Amount must be greater than 0'' \<and>
   inFlight (handleSubmit zeroApp (Fin 3500) zeroApp) = inFlight zeroApp \<and>
   error (form (handleSubmit sameTokenApp (Fin 1) sameTokenApp)) = ''Cannot swap the same token'' \<and>
   inFlight (handleSubmit sameTokenApp (Fin 1) sameTokenApp) = inFlight sameTokenApp"
proof -
  note T1 = handleSubmit_validation [of exampleApp "Fin 3500" exampleApp]
  note T2 = handleSubmit_validation [of zeroApp "Fin 3500" zeroApp]
  note T3 = handleSubmit_validation [of sameTokenApp "Fin 1" sameTokenApp]
  have h1: "fromAmount (formData (form exampleApp)) \<noteq> [] \<and>
      trim (fromAmount (formData (form exampleApp))) \<noteq> [] \<and>
      amountPattern (fromAmount (formData (form exampleApp))) \<and>
      fromToken (formData (form exampleApp)) \<noteq> toToken (formData (form exampleApp))"
    by code_simp
  have p1: "parseFloat (fromAmount (formData (form exampleApp))) = Fin 2"
    by code_simp
  have q1: "\<exists>q. parseFloat (fromAmount (formData (form exampleApp))) = Fin q \<and> 0 < q \<and>
      q \<le> 9007199254740991"
    unfolding p1 by simp
  have h2: "fromAmount (formData (form zeroApp)) = ''0''"
    by code_simp
  have h3: "fromToken (formData (form sameTokenApp)) = toToken (formData (form sameTokenApp))"
    by code_simp
  have v3: "validateSwapAmount (fromAmount (formData (form sameTokenApp))) FromAmountField = None"
    by code_simp
  from T1 h1 q1 have a: "inFlight (handleSubmit exampleApp (Fin 3500) exampleApp) \<noteq> inFlight exampleApp"
    by blast
  from T2 h2 have b: "error (form (handleSubmit zeroApp (Fin 3500) zeroApp)) = ''Amount must be greater than 0'' \<and>
      inFlight (handleSubmit zeroApp (Fin 3500) zeroApp) = inFlight zeroApp"
    by blast
  from T3 h3 v3 have c: "error (form (handleSubmit sameTokenApp (Fin 1) sameTokenApp)) = ''Cannot swap the same token'' \<and>
      inFlight (handleSubmit sameTokenApp (Fin 1) sameTokenApp) = inFlight sameTokenApp"
    by blast
  from a b c show ?thesis by blast
qed

section \<open>The outcome of a swap (C8)\<close>



section \<open>Amounts in the form state (C9)\<close>

text \<open>
  Claim C9 says that the two amounts of every reachable form state are empty or match
  the amount pattern. One edit from the initial form, of a well-formed amount, makes the
  conversion write 3.5e+21 into the "to" field, which does not match the pattern; after a
  swap of the direction it is the "from" amount, and the form's own submit validation
  rejects it as not a valid number.
\<close>

theorem malformed_amount_reachable:
  "amountPattern ''1000000000000000000'' \<and>
   toAmount (formData largeEdit) \<noteq> [] \<and>
   \<not> amountPattern (toAmount (formData largeEdit)) \<and>
   fromAmount (formData largeEditSwapped) = toAmount (formData largeEdit) \<and>
   validateSwapAmount (fromAmount (formData largeEditSwapped)) FromAmountField =
     Some \<lparr>field = FromAmountField, message = ''Please enter a valid number''\<rparr>"
proof -
  have a: "amountPattern ''1000000000000000000''"
    by code_simp
  have b: "toAmount (formData largeEdit) = ''3.5e+21''"
    by (simp add: largeEdit_formData)
  have c: "fromAmount (formData largeEditSwapped) = ''3.5e+21''"
    by (simp add: largeEditSwapped_def handleSwapTokens_def largeEdit_formData)
  have d: "\<not> amountPattern ''3.5e+21''"
    by code_simp
  have e: "validateSwapAmount ''3.5e+21'' FromAmountField =
     Some \<lparr>field = FromAmountField, message = ''Please enter a valid number''\<rparr>"
    by code_simp
  show ?thesis
    unfolding b c using a d e by simp
qed

text \<open>The other half of claim C9 holds: an edit whose value fails the pattern changes only the error message.\<close>

lemma rejected_edit_keeps_formData:
  "v \<noteq> [] \<Longrightarrow> \<not> amountPattern v \<Longrightarrow>
   handleFromAmountChange r rate v s = s\<lparr>error := ''Please enter a valid number''\<rparr> \<and>
   handleToAmountChange r rate v s = s\<lparr>error := ''Please enter a valid number''\<rparr>"
  by (simp add: handleFromAmountChange_def handleToAmountChange_def)

section \<open>The status of a transaction (C10)\<close>

text \<open>
  Claim C10. A transaction that \<open>executeSwap\<close> returns has the status completed and is the
  one stored as last transaction; when \<open>executeSwap\<close> throws, as it does on a failed
  settlement, the last transaction is the one from before. So if the last transaction,
  when there is one, is completed, it is so after the next swap has resolved. There is no
  last transaction at the start, and nothing else writes it: not the first part of
  \<open>executeSwap\<close>, which sets the two flags only, nor \<open>handleSubmit\<close> up to its
  \<^verbatim>\<open>await\<close>, a click on the submit button, the timer that hides the banner, or the
  \<^verbatim>\<open>catch\<close> block.
\<close>

theorem executeSwap_status_completed:
  "(executeSwap_resume res fd rate sw = (Inr tx, sw') \<longrightarrow>
      tx_status tx = Completed \<and> lastTransaction sw' = Some tx) \<and>
   (executeSwap_resume res fd rate sw = (Inl e, sw') \<longrightarrow>
      lastTransaction sw' = lastTransaction sw) \<and>
   ((\<forall>t. lastTransaction (swapHook s) = Some t \<longrightarrow> tx_status t = Completed) \<longrightarrow>
    (\<forall>t. lastTransaction (swapHook (handleSubmit_resume res s)) = Some t \<longrightarrow>
       tx_status t = Completed)) \<and>
   lastTransaction initialSwap = None \<and>
   lastTransaction (executeSwap_begin sw) = lastTransaction sw \<and>
   lastTransaction (swapHook (handleSubmit r rate' s)) = lastTransaction (swapHook s) \<and>
   lastTransaction (swapHook (clickSubmit r rate' s)) = lastTransaction (swapHook s) \<and>
   lastTransaction (swapHook (hideSuccess s)) = lastTransaction (swapHook s) \<and>
   lastTransaction (swapHook (handleSubmit_resume RandomFailure s)) = lastTransaction (swapHook s) \<and>
   fst (executeSwap_resume RandomFailure fd rate sw) = Inl ''Transaction failed. Please try again.''"
proof (intro conjI)
  show "executeSwap_resume res fd rate sw = (Inr tx, sw') \<longrightarrow>
      tx_status tx = Completed \<and> lastTransaction sw' = Some tx"
    by (cases res) (auto simp: executeSwap_resume_def Let_def)
  show "executeSwap_resume res fd rate sw = (Inl e, sw') \<longrightarrow>
      lastTransaction sw' = lastTransaction sw"
    by (cases res) (auto simp: executeSwap_resume_def Let_def)
  show "(\<forall>t. lastTransaction (swapHook s) = Some t \<longrightarrow> tx_status t = Completed) \<longrightarrow>
    (\<forall>t. lastTransaction (swapHook (handleSubmit_resume res s)) = Some t \<longrightarrow>
       tx_status t = Completed)"
    by (cases res)
       (auto simp: executeSwap_resume_def handleSubmit_resume_def Let_def split: list.splits)
  show "lastTransaction initialSwap = None"
    by (simp add: initialSwap_def)
  show "lastTransaction (executeSwap_begin sw) = lastTransaction sw"
    by (simp add: executeSwap_begin_def)
  show hs: "lastTransaction (swapHook (handleSubmit r rate' s)) = lastTransaction (swapHook s)"
    by (simp add: handleSubmit_def executeSwap_begin_def split: option.splits)
  show "lastTransaction (swapHook (clickSubmit r rate' s)) = lastTransaction (swapHook s)"
    using hs by (simp add: clickSubmit_def)
  show "lastTransaction (swapHook (hideSuccess s)) = lastTransaction (swapHook s)"
    by (simp add: hideSuccess_def)
  show "lastTransaction (swapHook (handleSubmit_resume RandomFailure s)) = lastTransaction (swapHook s)"
    by (simp add: handleSubmit_resume_def executeSwap_resume_def split: list.splits)
  show "fst (executeSwap_resume RandomFailure fd rate sw) = Inl ''Transaction failed. Please try again.''"
    by (simp add: executeSwap_resume_def)
qed

text \<open>
  The example form, submitted and settled: there is no last transaction while the swap is
  in flight, the transaction returned is completed and stored; a second submission that
  fails leaves that completed transaction as the last one.
\<close>

theorem executeSwap_status_completed_witness:
  "lastTransaction (swapHook (handleSubmit exampleApp (Fin 3500) exampleApp)) = None \<and>
   (\<exists>tx sw'. executeSwap_resume (Settled 1700000000000 ''k3j9x0q2a'' 1700000000001) (formData exampleForm)
        (Fin 3500) initialSwap = (Inr tx, sw') \<and>
      tx_status tx = Completed \<and> lastTransaction sw' = Some tx) \<and>
   (\<exists>e sw'. executeSwap_resume RandomFailure (formData exampleForm) (Fin 3500) initialSwap =
        (Inl e, sw') \<and> lastTransaction sw' = lastTransaction initialSwap) \<and>
   (\<exists>t. lastTransaction (swapHook (handleSubmit_resume RandomFailure
        (handleSubmit_resume (Settled 1700000000000 ''k3j9x0q2a'' 1700000000001)
           (handleSubmit exampleApp (Fin 3500) exampleApp)))) = Some t \<and>
      tx_status t = Completed)"
proof -
  let ?ok = "Settled 1700000000000 ''k3j9x0q2a'' 1700000000001"
  let ?s1 = "handleSubmit_resume ?ok (handleSubmit exampleApp (Fin 3500) exampleApp)"
  let ?s2 = "handleSubmit_resume RandomFailure ?s1"
  have "\<exists>tx sw'. executeSwap_resume ?ok (formData exampleForm) (Fin 3500) initialSwap = (Inr tx, sw')"
    by (simp add: executeSwap_resume_def Let_def)
  then obtain tx sw' where
    ok: "executeSwap_resume ?ok (formData exampleForm) (Fin 3500) initialSwap = (Inr tx, sw')"
    by blast
  have "\<exists>e sw'. executeSwap_resume RandomFailure (formData exampleForm) (Fin 3500) initialSwap = (Inl e, sw')"
    by (simp add: executeSwap_resume_def)
  then obtain e sw'' where
    ko: "executeSwap_resume RandomFailure (formData exampleForm) (Fin 3500) initialSwap = (Inl e, sw'')"
    by blast
  note a = executeSwap_status_completed [where res = ?ok and fd = "formData exampleForm"
      and rate = "Fin 3500" and sw = initialSwap and tx = tx and sw' = sw',
      THEN conjunct1, THEN mp, OF ok]
  note b = executeSwap_status_completed [where res = RandomFailure and fd = "formData exampleForm"
      and rate = "Fin 3500" and sw = initialSwap and e = e and sw' = sw'',
      THEN conjunct2, THEN conjunct1, THEN mp, OF ko]
  have "map_option tx_status (lastTransaction (swapHook ?s1)) = Some Completed"
    by code_simp
  then have n1: "\<forall>t. lastTransaction (swapHook ?s1) = Some t \<longrightarrow> tx_status t = Completed"
    by (cases "lastTransaction (swapHook ?s1)") auto
  note n2 = executeSwap_status_completed [where s = ?s1 and res = RandomFailure,
      THEN conjunct2, THEN conjunct2, THEN conjunct1, THEN mp, OF n1]
  have "lastTransaction (swapHook ?s2) \<noteq> None"
    by code_simp
  then obtain t where t: "lastTransaction (swapHook ?s2) = Some t"
    by blast
  with n2 have c: "lastTransaction (swapHook ?s2) = Some t \<and> tx_status t = Completed"
    by blast
  have i: "lastTransaction (swapHook exampleApp) = None"
    by code_simp
  note h = executeSwap_status_completed [where r = exampleApp and rate' = "Fin 3500" and s = exampleApp,
      THEN conjunct2, THEN conjunct2, THEN conjunct2, THEN conjunct2, THEN conjunct2, THEN conjunct1]
  from h i have H: "lastTransaction (swapHook (handleSubmit exampleApp (Fin 3500) exampleApp)) = None"
    by simp
  from ok a have A: "\<exists>tx sw'. executeSwap_resume ?ok (formData exampleForm) (Fin 3500) initialSwap = (Inr tx, sw') \<and>
      tx_status tx = Completed \<and> lastTransaction sw' = Some tx"
    by blast
  from ko b have B: "\<exists>e sw'. executeSwap_resume RandomFailure (formData exampleForm) (Fin 3500) initialSwap =
        (Inl e, sw') \<and> lastTransaction sw' = lastTransaction initialSwap"
    by blast
  from c have C: "\<exists>t. lastTransaction (swapHook ?s2) = Some t \<and> tx_status t = Completed"
    by blast
  from H A B C show ?thesis by blast
qed

end
